theory Spec2Isabelle
  imports Main "HOL-Library.Word" "HOL-Library.Multiset" "HOL-Library.Product_Lexorder"
begin

section \<open>Node-based edges of the extractor (include/extractor/node_based_edge.hpp)\<close>

text \<open>
  The header declares three value types and their inline operations. The types it takes
  from other headers (\<open>NodeID\<close>, \<open>EdgeWeight\<close>, \<open>EdgeDuration\<close>, \<open>GeometryID\<close>,
  \<open>OSMNodeID\<close>, \<open>NameID\<close>, \<open>ClassData\<close>, \<open>LaneDescriptionID\<close>,
  \<open>guidance::RoadClassification\<close>) are type parameters of the records below, and the
  constants it takes from them (\<open>SPECIAL_NODEID\<close>, \<open>MIN_OSM_NODEID\<close>) and the default
  constructors of \<open>GeometryID\<close> and \<open>RoadClassification\<close> are parameters of the
  constructors that use them. What the header itself fixes is modelled at its width:
  \<open>AnnotationID\<close> is \<open>std::uint32_t\<close>, the seven flags are one-bit fields of
  \<open>std::uint8_t\<close>, and the travel mode is a four-bit field.
\<close>

subsection \<open>Data\<close>

type_synonym AnnotationID = "32 word"

text \<open>\<open>struct NodeBasedEdgeClassification\<close>: seven one-bit fields and the road classification.\<close>

record 'rc NodeBasedEdgeClassification =
  forward :: "1 word"
  backward :: "1 word"
  is_split :: "1 word"
  roundabout :: "1 word"
  circular :: "1 word"
  startpoint :: "1 word"
  restricted :: "1 word"
  road_classification :: 'rc

text \<open>\<open>struct NodeBasedEdgeAnnotation\<close>.\<close>

record ('nm, 'cd, 'ld) NodeBasedEdgeAnnotation =
  name_id :: 'nm
  travel_mode :: "4 word"
  classes :: 'cd
  lane_description_id :: 'ld

text \<open>\<open>struct NodeBasedEdge\<close>.\<close>

record ('n, 'w, 'd, 'g, 'rc) NodeBasedEdge =
  source :: 'n
  target :: 'n
  weight :: 'w
  duration :: 'd
  geometry_id :: 'g
  annotation_data :: AnnotationID
  flags :: "'rc NodeBasedEdgeClassification"

text \<open>
  \<open>struct NodeBasedEdgeWithOSM : NodeBasedEdge\<close>: the derived struct keeps every member of
  its base and adds the two OSM identifiers, which is what a record extension does.
\<close>

record ('n, 'w, 'd, 'g, 'rc, 'o) NodeBasedEdgeWithOSM = "('n, 'w, 'd, 'g, 'rc) NodeBasedEdge" +
  osm_source_id :: 'o
  osm_target_id :: 'o

subsection \<open>Constructors\<close>

text \<open>
  Modelled from the spec: the default constructor of \<open>guidance::RoadClassification\<close> is
  declared in extractor/guidance/road_classification.hpp, outside this header; the parameter
  \<open>unclassified\<close> is the value it yields, which the spec calls the unclassified road
  classification. The rest is the source: \<open>NodeBasedEdgeClassification()\<close> initialises
  the seven bit-fields with \<open>false\<close> and leaves \<open>road_classification\<close>, which is
  not in its initialiser list, to that default constructor.
\<close>

definition NodeBasedEdgeClassification_default :: "'rc \<Rightarrow> 'rc NodeBasedEdgeClassification" where
  "NodeBasedEdgeClassification_default unclassified =
     \<lparr> forward = of_bool False, backward = of_bool False, is_split = of_bool False,
       roundabout = of_bool False, circular = of_bool False, startpoint = of_bool False,
       restricted = of_bool False, road_classification = unclassified \<rparr>"

text \<open>The eight-argument constructor stores each \<open>bool\<close> in its one-bit field.\<close>

definition NodeBasedEdgeClassification_ctor ::
  "bool \<Rightarrow> bool \<Rightarrow> bool \<Rightarrow> bool \<Rightarrow> bool \<Rightarrow> bool \<Rightarrow> bool \<Rightarrow> 'rc \<Rightarrow> 'rc NodeBasedEdgeClassification" where
  "NodeBasedEdgeClassification_ctor forward' backward' is_split' roundabout' circular'
       startpoint' restricted' road_classification' =
     \<lparr> forward = of_bool forward', backward = of_bool backward', is_split = of_bool is_split',
       roundabout = of_bool roundabout', circular = of_bool circular',
       startpoint = of_bool startpoint', restricted = of_bool restricted',
       road_classification = road_classification' \<rparr>"

text \<open>
  \<open>NodeBasedEdge()\<close>: \<open>source(SPECIAL_NODEID), target(SPECIAL_NODEID), weight(0), duration(0),
  annotation_data(-1)\<close>; the \<open>int\<close> \<open>-1\<close> is converted to \<open>std::uint32_t\<close>. \<open>geometry_id\<close>
  and \<open>flags\<close> are default-constructed.
\<close>

definition NodeBasedEdge_default ::
  "'n \<Rightarrow> 'g \<Rightarrow> 'rc \<Rightarrow> ('n, 'w::zero, 'd::zero, 'g, 'rc) NodeBasedEdge" where
  "NodeBasedEdge_default SPECIAL_NODEID GeometryID_default unclassified =
     \<lparr> source = SPECIAL_NODEID, target = SPECIAL_NODEID, weight = 0, duration = 0,
       geometry_id = GeometryID_default, annotation_data = word_of_int (- 1),
       flags = NodeBasedEdgeClassification_default unclassified \<rparr>"

definition NodeBasedEdge_ctor ::
  "'n \<Rightarrow> 'n \<Rightarrow> 'w \<Rightarrow> 'd \<Rightarrow> 'g \<Rightarrow> AnnotationID \<Rightarrow> 'rc NodeBasedEdgeClassification
     \<Rightarrow> ('n, 'w, 'd, 'g, 'rc) NodeBasedEdge" where
  "NodeBasedEdge_ctor source' target' weight' duration' geometry_id' annotation_data' flags' =
     \<lparr> source = source', target = target', weight = weight', duration = duration',
       geometry_id = geometry_id', annotation_data = annotation_data', flags = flags' \<rparr>"

text \<open>
  \<open>NodeBasedEdgeWithOSM(source, target, ...)\<close> runs the base constructor with
  \<open>SPECIAL_NODEID\<close> for both internal endpoints and then stores the OSM identifiers.
\<close>

definition NodeBasedEdgeWithOSM_ctor ::
  "'n \<Rightarrow> 'o \<Rightarrow> 'o \<Rightarrow> 'w \<Rightarrow> 'd \<Rightarrow> 'g \<Rightarrow> AnnotationID \<Rightarrow> 'rc NodeBasedEdgeClassification
     \<Rightarrow> ('n, 'w, 'd, 'g, 'rc, 'o) NodeBasedEdgeWithOSM" where
  "NodeBasedEdgeWithOSM_ctor SPECIAL_NODEID source' target' weight' duration' geometry_id'
       annotation_data' flags' =
     NodeBasedEdge.extend
       (NodeBasedEdge_ctor SPECIAL_NODEID SPECIAL_NODEID weight' duration' geometry_id'
          annotation_data' flags')
       (NodeBasedEdgeWithOSM.fields source' target')"

text \<open>\<open>NodeBasedEdgeWithOSM()\<close>: the base is default-constructed, both OSM identifiers are
  \<open>MIN_OSM_NODEID\<close>.\<close>

definition NodeBasedEdgeWithOSM_default ::
  "'n \<Rightarrow> 'g \<Rightarrow> 'rc \<Rightarrow> 'o \<Rightarrow> ('n, 'w::zero, 'd::zero, 'g, 'rc, 'o) NodeBasedEdgeWithOSM" where
  "NodeBasedEdgeWithOSM_default SPECIAL_NODEID GeometryID_default unclassified MIN_OSM_NODEID =
     NodeBasedEdge.extend
       (NodeBasedEdge_default SPECIAL_NODEID GeometryID_default unclassified)
       (NodeBasedEdgeWithOSM.fields MIN_OSM_NODEID MIN_OSM_NODEID)"

subsection \<open>Operations\<close>

text \<open>
  \<open>NodeBasedEdgeClassification::CanCombineWith\<close>. \<open>==\<close> binds tighter than \<open>&&\<close>, so
  \<open>(is_split) == (other.is_split)\<close> is one of the eight conjuncts. The comparison of two
  \<open>RoadClassification\<close> values is that class's own \<open>operator==\<close>, declared outside this
  header: it is the parameter \<open>rc_eq\<close>.
\<close>

definition NodeBasedEdgeClassification_CanCombineWith ::
  "('rc \<Rightarrow> 'rc \<Rightarrow> bool) \<Rightarrow> 'rc NodeBasedEdgeClassification \<Rightarrow> 'rc NodeBasedEdgeClassification \<Rightarrow> bool" where
  "NodeBasedEdgeClassification_CanCombineWith rc_eq this other =
     (rc_eq (road_classification this) (road_classification other) \<and>
      (forward this = forward other) \<and>
      (backward this = backward other) \<and> (is_split this) = (is_split other) \<and>
      (roundabout this = roundabout other) \<and> (circular this = circular other) \<and>
      (startpoint this = startpoint other) \<and> (restricted this = restricted other))"

text \<open>\<open>NodeBasedEdgeAnnotation::CanCombineWith\<close>: the two \<open>std::tie\<close> tuples are compared
  component by component, then the travel modes.\<close>

definition NodeBasedEdgeAnnotation_CanCombineWith ::
  "('nm, 'cd, 'ld) NodeBasedEdgeAnnotation \<Rightarrow> ('nm, 'cd, 'ld) NodeBasedEdgeAnnotation \<Rightarrow> bool" where
  "NodeBasedEdgeAnnotation_CanCombineWith this other =
     (((name_id this, classes this) = (name_id other, classes other)) \<and>
      (travel_mode this = travel_mode other))"

text \<open>
  \<open>NodeBasedEdge::operator<\<close>. A bit-field used as a condition is true when it is not zero,
  and \<open>!x\<close> is true when it is zero.
\<close>

definition NodeBasedEdge_less ::
  "('n::ord, 'w::ord, 'd, 'g, 'rc) NodeBasedEdge \<Rightarrow> ('n, 'w, 'd, 'g, 'rc) NodeBasedEdge \<Rightarrow> bool" where
  "NodeBasedEdge_less this other =
     (if source this = source other then
        (if target this = target other then
           (if weight this = weight other then
              forward (flags this) \<noteq> 0 \<and> backward (flags this) \<noteq> 0 \<and>
              ((forward (flags other) = 0) \<or> (backward (flags other) = 0))
            else weight this < weight other)
         else target this < target other)
      else source this < source other)"

subsection \<open>Sorted sequences of edges\<close>

text \<open>
  Modelled from the spec: the sort that uses the comparator is the caller's and is not
  part of this header (the spec: "this core sorts that sequence with the total-order
  comparator"). A sequence is in sorted order for the comparator when no later record is
  less than an earlier one, which is the postcondition of a comparison sort.
\<close>

definition NodeBasedEdge_sorted :: "('n::ord, 'w::ord, 'd, 'g, 'rc) NodeBasedEdge list \<Rightarrow> bool" where
  "NodeBasedEdge_sorted es = sorted_wrt (\<lambda>x y. \<not> NodeBasedEdge_less y x) es"

text \<open>
  Two records are tied by the comparator's last step when they have the same source,
  target and weight, and either both have \<open>forward\<close> and \<open>backward\<close> set or both have one
  of them unset.
\<close>

definition NodeBasedEdge_tied ::
  "('n, 'w, 'd, 'g, 'rc) NodeBasedEdge \<Rightarrow> ('n, 'w, 'd, 'g, 'rc) NodeBasedEdge \<Rightarrow> bool" where
  "NodeBasedEdge_tied a b =
     (source a = source b \<and> target a = target b \<and> weight a = weight b \<and>
      ((forward (flags a) \<noteq> 0 \<and> backward (flags a) \<noteq> 0) =
       (forward (flags b) \<noteq> 0 \<and> backward (flags b) \<noteq> 0)))"

text \<open>The sort key the comparator orders by; \<open>False\<close> is below \<open>True\<close>, so a record with
  both directions set comes first.\<close>

definition NodeBasedEdge_key :: "('n, 'w, 'd, 'g, 'rc) NodeBasedEdge \<Rightarrow> 'n \<times> 'n \<times> 'w \<times> bool" where
  "NodeBasedEdge_key e =
     (source e, target e, weight e, \<not> (forward (flags e) \<noteq> 0 \<and> backward (flags e) \<noteq> 0))"

section \<open>Properties\<close>

subsection \<open>One-bit fields\<close>

lemma bit1_cases: "(x :: 1 word) = 0 \<or> x = 1"
proof -
  have "unat x < 2" using unsigned_less [of x, where 'a = nat] by simp
  then have "unat x = 0 \<or> unat x = 1" by arith
  then show ?thesis by (auto simp: word_unat_eq_iff)
qed

lemma bit1_set_iff: "(x :: 1 word) \<noteq> 0 \<longleftrightarrow> x = 1"
  using bit1_cases [of x] by auto

lemma bit1_clear_iff: "(x :: 1 word) \<noteq> 1 \<longleftrightarrow> x = 0"
  using bit1_cases [of x] by auto

subsection \<open>The comparator\<close>

text \<open>
  C1. For all edge records \<open>a\<close> and \<open>b\<close>, \<open>a < b\<close> holds iff \<open>a.source < b.source\<close>, or the
  sources are equal and \<open>a.target < b.target\<close>, or sources and targets are equal and
  \<open>a.weight < b.weight\<close>, or source, target and weight are all equal and \<open>a\<close> has both
  \<open>forward\<close> and \<open>backward\<close> set while \<open>b\<close> has at least one of them unset. In particular,
  at identical source, target and weight a fully bidirectional record is strictly before a
  record with a direction unset.
\<close>

theorem NodeBasedEdge_less_lexicographic:
  fixes a b :: "('n::linorder, 'w::linorder, 'd, 'g, 'rc) NodeBasedEdge"
  shows
    "(NodeBasedEdge_less a b \<longleftrightarrow>
        source a < source b
      \<or> (source a = source b \<and> target a < target b)
      \<or> (source a = source b \<and> target a = target b \<and> weight a < weight b)
      \<or> (source a = source b \<and> target a = target b \<and> weight a = weight b \<and>
          (forward (flags a) = 1 \<and> backward (flags a) = 1) \<and>
          (forward (flags b) = 0 \<or> backward (flags b) = 0)))
     \<and>
     (source a = source b \<and> target a = target b \<and> weight a = weight b \<and>
      forward (flags a) = 1 \<and> backward (flags a) = 1 \<and>
      (forward (flags b) = 0 \<or> backward (flags b) = 0)
        \<longrightarrow> NodeBasedEdge_less a b \<and> \<not> NodeBasedEdge_less b a)"
  by (auto simp: NodeBasedEdge_less_def bit1_set_iff)

theorem NodeBasedEdge_less_lexicographic_witness:
  "NodeBasedEdge_less
     (NodeBasedEdge_ctor (1::32 word) 2 (10::32 word) (7::32 word) (0::32 word) 0
        (NodeBasedEdgeClassification_ctor True True False False False True False (0::16 word)))
     (NodeBasedEdge_ctor 1 2 10 7 0 0
        (NodeBasedEdgeClassification_ctor True False False False False True False 0))
   \<and> \<not> NodeBasedEdge_less
     (NodeBasedEdge_ctor (1::32 word) 2 (10::32 word) (7::32 word) (0::32 word) 0
        (NodeBasedEdgeClassification_ctor True False False False False True False (0::16 word)))
     (NodeBasedEdge_ctor 1 2 10 7 0 0
        (NodeBasedEdgeClassification_ctor True True False False False True False 0))"
  using NodeBasedEdge_less_lexicographic
    [of "NodeBasedEdge_ctor (1::32 word) 2 (10::32 word) (7::32 word) (0::32 word) 0
           (NodeBasedEdgeClassification_ctor True True False False False True False (0::16 word))"
        "NodeBasedEdge_ctor 1 2 10 7 0 0
           (NodeBasedEdgeClassification_ctor True False False False False True False 0)"]
  by (simp add: NodeBasedEdge_ctor_def NodeBasedEdgeClassification_ctor_def)

subsection \<open>Combinability of classification flags\<close>

text \<open>
  C2. For all classification flags \<open>a\<close> and \<open>b\<close>, \<open>a.CanCombineWith(b)\<close> is true iff the road
  classifications compare equal, \<open>forward\<close>, \<open>backward\<close>, \<open>roundabout\<close>, \<open>circular\<close>,
  \<open>startpoint\<close> and \<open>restricted\<close> are pairwise equal, and the two \<open>is_split\<close> values are
  equal. The second part says the same of two values built by the constructor from
  booleans: the stored bits are equal exactly when the booleans are.
\<close>

theorem NodeBasedEdgeClassification_CanCombineWith_iff:
  "(NodeBasedEdgeClassification_CanCombineWith rc_eq a b \<longleftrightarrow>
      rc_eq (road_classification a) (road_classification b) \<and>
      forward a = forward b \<and> backward a = backward b \<and>
      roundabout a = roundabout b \<and> circular a = circular b \<and>
      startpoint a = startpoint b \<and> restricted a = restricted b \<and>
      is_split a = is_split b)
   \<and>
   (NodeBasedEdgeClassification_CanCombineWith rc_eq
      (NodeBasedEdgeClassification_ctor f1 b1 s1 r1 c1 p1 x1 rc1)
      (NodeBasedEdgeClassification_ctor f2 b2 s2 r2 c2 p2 x2 rc2) \<longleftrightarrow>
      rc_eq rc1 rc2 \<and> f1 = f2 \<and> b1 = b2 \<and> r1 = r2 \<and> c1 = c2 \<and> p1 = p2 \<and> x1 = x2 \<and> s1 = s2)"
  unfolding NodeBasedEdgeClassification_CanCombineWith_def NodeBasedEdgeClassification_ctor_def
  by (cases f1; cases f2; cases b1; cases b2; cases s1; cases s2; cases r1; cases r2) auto

theorem NodeBasedEdgeClassification_CanCombineWith_iff_witness:
  "NodeBasedEdgeClassification_CanCombineWith (=)
     (NodeBasedEdgeClassification_ctor True False True False False True False (3::16 word))
     (NodeBasedEdgeClassification_ctor True False True False False True False 3)
   \<and> \<not> NodeBasedEdgeClassification_CanCombineWith (=)
     (NodeBasedEdgeClassification_ctor True False True False False True False (3::16 word))
     (NodeBasedEdgeClassification_ctor True False True True False True False 3)"
  using NodeBasedEdgeClassification_CanCombineWith_iff
    [where rc_eq = "(=)" and ?f1.0 = True and ?b1.0 = False and ?s1.0 = True and ?r1.0 = False
       and ?c1.0 = False and ?p1.0 = True and ?x1.0 = False and ?rc1.0 = "3::16 word"
       and ?f2.0 = True and ?b2.0 = False and ?s2.0 = True and ?r2.0 = False
       and ?c2.0 = False and ?p2.0 = True and ?x2.0 = False and ?rc2.0 = 3, THEN conjunct2]
    NodeBasedEdgeClassification_CanCombineWith_iff
    [where rc_eq = "(=)" and ?f1.0 = True and ?b1.0 = False and ?s1.0 = True and ?r1.0 = False
       and ?c1.0 = False and ?p1.0 = True and ?x1.0 = False and ?rc1.0 = "3::16 word"
       and ?f2.0 = True and ?b2.0 = False and ?s2.0 = True and ?r2.0 = True
       and ?c2.0 = False and ?p2.0 = True and ?x2.0 = False and ?rc2.0 = 3, THEN conjunct2]
  by simp

text \<open>
  C3 as stated: the \<open>is_split\<close> comparison is always true, so two classification flags that
  agree on everything else but differ in \<open>is_split\<close> are combinable. It fails: the two values
  below agree on the road classification and the six other flags, differ in \<open>is_split\<close>, and
  are not combinable.
\<close>

theorem CanCombineWith_is_split_counterexample:
  "road_classification (NodeBasedEdgeClassification_ctor True False True False False True False (3::16 word))
     = road_classification (NodeBasedEdgeClassification_ctor True False False False False True False (3::16 word))
   \<and> is_split (NodeBasedEdgeClassification_ctor True False True False False True False (3::16 word))
     \<noteq> is_split (NodeBasedEdgeClassification_ctor True False False False False True False (3::16 word))
   \<and> \<not> NodeBasedEdgeClassification_CanCombineWith (=)
     (NodeBasedEdgeClassification_ctor True False True False False True False (3::16 word))
     (NodeBasedEdgeClassification_ctor True False False False False True False 3)"
  by (simp add: NodeBasedEdgeClassification_CanCombineWith_def NodeBasedEdgeClassification_ctor_def)

text \<open>
  C3 as amended: the \<open>is_split\<close> comparison is a real comparison. For every pair of
  classification flags that agree on the road classification, \<open>forward\<close>, \<open>backward\<close>,
  \<open>roundabout\<close>, \<open>circular\<close>, \<open>startpoint\<close> and \<open>restricted\<close>, \<open>CanCombineWith\<close> is true
  exactly when the two \<open>is_split\<close> values are equal, so it is false when they differ.
\<close>

theorem CanCombineWith_is_split_decides:
  assumes "rc_eq (road_classification a) (road_classification b)"
    and "forward a = forward b" and "backward a = backward b"
    and "roundabout a = roundabout b" and "circular a = circular b"
    and "startpoint a = startpoint b" and "restricted a = restricted b"
  shows "NodeBasedEdgeClassification_CanCombineWith rc_eq a b \<longleftrightarrow> is_split a = is_split b"
  using assms by (simp add: NodeBasedEdgeClassification_CanCombineWith_def)

theorem CanCombineWith_is_split_decides_witness:
  "\<not> NodeBasedEdgeClassification_CanCombineWith (=)
     \<lparr> forward = 1, backward = 0, is_split = 1, roundabout = 0, circular = 0, startpoint = 1,
       restricted = 0, road_classification = (3::16 word) \<rparr>
     \<lparr> forward = 1, backward = 0, is_split = 0, roundabout = 0, circular = 0, startpoint = 1,
       restricted = 0, road_classification = 3 \<rparr>"
  using CanCombineWith_is_split_decides
    [of "(=)"
        "\<lparr> forward = 1, backward = 0, is_split = 1, roundabout = 0, circular = 0, startpoint = 1,
           restricted = 0, road_classification = (3::16 word) \<rparr>"
        "\<lparr> forward = 1, backward = 0, is_split = 0, roundabout = 0, circular = 0, startpoint = 1,
           restricted = 0, road_classification = 3 \<rparr>"]
  by simp

subsection \<open>Combinability of annotations\<close>

text \<open>
  C4. For all annotation records \<open>a\<close> and \<open>b\<close>, \<open>a.CanCombineWith(b)\<close> is true iff the name
  identifiers, the class data and the travel modes are equal; in particular two records
  that agree on these three and differ in the lane-description identifier are combinable.
\<close>

theorem NodeBasedEdgeAnnotation_CanCombineWith_iff:
  "(NodeBasedEdgeAnnotation_CanCombineWith a b \<longleftrightarrow>
      name_id a = name_id b \<and> classes a = classes b \<and> travel_mode a = travel_mode b)
   \<and>
   (name_id a = name_id b \<and> classes a = classes b \<and> travel_mode a = travel_mode b \<and>
    lane_description_id a \<noteq> lane_description_id b
      \<longrightarrow> NodeBasedEdgeAnnotation_CanCombineWith a b)"
  by (simp add: NodeBasedEdgeAnnotation_CanCombineWith_def)

theorem NodeBasedEdgeAnnotation_CanCombineWith_iff_witness:
  "NodeBasedEdgeAnnotation_CanCombineWith
     \<lparr> name_id = (17::32 word), travel_mode = 1, classes = (5::8 word),
       lane_description_id = (2::16 word) \<rparr>
     \<lparr> name_id = 17, travel_mode = 1, classes = 5, lane_description_id = 9 \<rparr>"
  using NodeBasedEdgeAnnotation_CanCombineWith_iff
    [of "\<lparr> name_id = (17::32 word), travel_mode = 1, classes = (5::8 word),
            lane_description_id = (2::16 word) \<rparr>"
        "\<lparr> name_id = 17, travel_mode = 1, classes = 5, lane_description_id = 9 \<rparr>"]
  by simp

subsection \<open>Default construction\<close>

text \<open>
  C9. A default-constructed classification has all seven flags (\<open>forward\<close>, \<open>backward\<close>,
  \<open>is_split\<close>, \<open>roundabout\<close>, \<open>circular\<close>, \<open>startpoint\<close>, \<open>restricted\<close>) false, that is
  zero, and its road classification is the default-constructed (unclassified) one.
\<close>

theorem NodeBasedEdgeClassification_default_fields:
  "forward (NodeBasedEdgeClassification_default unclassified) = 0 \<and>
   backward (NodeBasedEdgeClassification_default unclassified) = 0 \<and>
   is_split (NodeBasedEdgeClassification_default unclassified) = 0 \<and>
   roundabout (NodeBasedEdgeClassification_default unclassified) = 0 \<and>
   circular (NodeBasedEdgeClassification_default unclassified) = 0 \<and>
   startpoint (NodeBasedEdgeClassification_default unclassified) = 0 \<and>
   restricted (NodeBasedEdgeClassification_default unclassified) = 0 \<and>
   road_classification (NodeBasedEdgeClassification_default unclassified) = unclassified"
  by (simp add: NodeBasedEdgeClassification_default_def)

theorem NodeBasedEdgeClassification_default_fields_witness:
  "NodeBasedEdgeClassification_default (0::16 word) =
     NodeBasedEdgeClassification_ctor False False False False False False False 0"
proof -
  have "\<And>r s :: 16 word NodeBasedEdgeClassification.
      forward r = forward s \<Longrightarrow> backward r = backward s \<Longrightarrow> is_split r = is_split s \<Longrightarrow>
      roundabout r = roundabout s \<Longrightarrow> circular r = circular s \<Longrightarrow>
      startpoint r = startpoint s \<Longrightarrow> restricted r = restricted s \<Longrightarrow>
      road_classification r = road_classification s \<Longrightarrow> r = s"
    by simp
  then show ?thesis
    using NodeBasedEdgeClassification_default_fields [of "0::16 word"]
    by (simp add: NodeBasedEdgeClassification_ctor_def)
qed

text \<open>
  C7. The annotation reference of a default-constructed edge record is the largest
  \<open>AnnotationID\<close>, \<open>2^32 - 1\<close>; its source and target are \<open>SPECIAL_NODEID\<close>, and its weight and
  duration are zero.
\<close>

theorem NodeBasedEdge_default_fields:
  fixes SPECIAL_NODEID :: 'n and GeometryID_default :: 'g and unclassified :: 'rc
  shows
    "unat (annotation_data (NodeBasedEdge_default SPECIAL_NODEID GeometryID_default unclassified
        :: ('n, 'w::zero, 'd::zero, 'g, 'rc) NodeBasedEdge)) = 2 ^ 32 - 1 \<and>
     (\<forall>x :: AnnotationID. x \<le> annotation_data (NodeBasedEdge_default SPECIAL_NODEID GeometryID_default unclassified
        :: ('n, 'w::zero, 'd::zero, 'g, 'rc) NodeBasedEdge)) \<and>
     source (NodeBasedEdge_default SPECIAL_NODEID GeometryID_default unclassified
        :: ('n, 'w::zero, 'd::zero, 'g, 'rc) NodeBasedEdge) = SPECIAL_NODEID \<and>
     target (NodeBasedEdge_default SPECIAL_NODEID GeometryID_default unclassified
        :: ('n, 'w::zero, 'd::zero, 'g, 'rc) NodeBasedEdge) = SPECIAL_NODEID \<and>
     weight (NodeBasedEdge_default SPECIAL_NODEID GeometryID_default unclassified
        :: ('n, 'w::zero, 'd::zero, 'g, 'rc) NodeBasedEdge) = 0 \<and>
     duration (NodeBasedEdge_default SPECIAL_NODEID GeometryID_default unclassified
        :: ('n, 'w::zero, 'd::zero, 'g, 'rc) NodeBasedEdge) = 0"
  by (simp add: NodeBasedEdge_default_def unsigned_minus_1_eq_mask mask_eq_exp_minus_1)

theorem NodeBasedEdge_default_fields_witness:
  "annotation_data (NodeBasedEdge_default (4294967295::32 word) (0::32 word) (0::16 word)
      :: (32 word, 32 word, 32 word, 32 word, 16 word) NodeBasedEdge) = 4294967295"
proof -
  have "unat (annotation_data (NodeBasedEdge_default (4294967295::32 word) (0::32 word) (0::16 word)
      :: (32 word, 32 word, 32 word, 32 word, 16 word) NodeBasedEdge)) = unat (4294967295 :: 32 word)"
    using NodeBasedEdge_default_fields
      [where ?'n = "32 word" and ?'w = "32 word" and ?'d = "32 word" and ?'g = "32 word"
         and ?'rc = "16 word",
       of 4294967295 0 0]
    by simp
  then show ?thesis by (simp only: word_unat_eq_iff)
qed

subsection \<open>The OSM-tagged edge\<close>

text \<open>
  C8 as stated: the OSM-tagged record has the two OSM identifiers in place of the two
  internal node identifiers, and shares the other fields with the plain record without
  inheriting from it. It fails: the struct derives from \<open>NodeBasedEdge\<close>; for the record
  built below from the OSM identifiers 5 and 7, the inherited \<open>source\<close> and \<open>target\<close> are
  still there, both \<open>SPECIAL_NODEID\<close> (here \<open>2^32 - 1\<close>), and its base part is the plain
  record that the base constructor builds.
\<close>

theorem NodeBasedEdgeWithOSM_counterexample:
  "source (NodeBasedEdgeWithOSM_ctor (4294967295::32 word) (5::64 word) 7 (10::32 word) (20::32 word)
      (3::32 word) 4 (NodeBasedEdgeClassification_ctor True False False False False True False (0::16 word)))
     = 4294967295
   \<and> target (NodeBasedEdgeWithOSM_ctor (4294967295::32 word) (5::64 word) 7 (10::32 word) (20::32 word)
      (3::32 word) 4 (NodeBasedEdgeClassification_ctor True False False False False True False (0::16 word)))
     = 4294967295
   \<and> NodeBasedEdge.truncate
       (NodeBasedEdgeWithOSM_ctor (4294967295::32 word) (5::64 word) 7 (10::32 word) (20::32 word)
          (3::32 word) 4 (NodeBasedEdgeClassification_ctor True False False False False True False (0::16 word)))
     = NodeBasedEdge_ctor 4294967295 4294967295 10 20 3 4
         (NodeBasedEdgeClassification_ctor True False False False False True False 0)"
  by (simp add: NodeBasedEdgeWithOSM_ctor_def NodeBasedEdge_ctor_def NodeBasedEdge.extend_def
      NodeBasedEdge.truncate_def NodeBasedEdgeWithOSM.fields_def)

text \<open>
  C8 as amended: the OSM-tagged record extends the plain edge record with two OSM
  identifiers. Constructing it from an OSM source and target stores them in
  \<open>osm_source_id\<close> and \<open>osm_target_id\<close>, sets the inherited \<open>source\<close> and \<open>target\<close> to
  \<open>SPECIAL_NODEID\<close>, and stores weight, duration, geometry reference, annotation reference
  and flags in the inherited fields: its base part is the plain record built from
  \<open>SPECIAL_NODEID\<close> twice and those five values.
\<close>

theorem NodeBasedEdgeWithOSM_ctor_fields:
  "osm_source_id (NodeBasedEdgeWithOSM_ctor SPECIAL_NODEID s t w d g a f) = s \<and>
   osm_target_id (NodeBasedEdgeWithOSM_ctor SPECIAL_NODEID s t w d g a f) = t \<and>
   source (NodeBasedEdgeWithOSM_ctor SPECIAL_NODEID s t w d g a f) = SPECIAL_NODEID \<and>
   target (NodeBasedEdgeWithOSM_ctor SPECIAL_NODEID s t w d g a f) = SPECIAL_NODEID \<and>
   weight (NodeBasedEdgeWithOSM_ctor SPECIAL_NODEID s t w d g a f) = w \<and>
   duration (NodeBasedEdgeWithOSM_ctor SPECIAL_NODEID s t w d g a f) = d \<and>
   geometry_id (NodeBasedEdgeWithOSM_ctor SPECIAL_NODEID s t w d g a f) = g \<and>
   annotation_data (NodeBasedEdgeWithOSM_ctor SPECIAL_NODEID s t w d g a f) = a \<and>
   flags (NodeBasedEdgeWithOSM_ctor SPECIAL_NODEID s t w d g a f) = f \<and>
   NodeBasedEdge.truncate (NodeBasedEdgeWithOSM_ctor SPECIAL_NODEID s t w d g a f)
     = NodeBasedEdge_ctor SPECIAL_NODEID SPECIAL_NODEID w d g a f"
  by (simp add: NodeBasedEdgeWithOSM_ctor_def NodeBasedEdge_ctor_def NodeBasedEdge.extend_def
      NodeBasedEdge.truncate_def NodeBasedEdgeWithOSM.fields_def)

theorem NodeBasedEdgeWithOSM_ctor_fields_witness:
  "osm_source_id (NodeBasedEdgeWithOSM_ctor (4294967295::32 word) (5::64 word) 7 (10::32 word)
      (20::32 word) (3::32 word) 4
      (NodeBasedEdgeClassification_default (0::16 word))) = 5
   \<and> osm_target_id (NodeBasedEdgeWithOSM_ctor (4294967295::32 word) (5::64 word) 7 (10::32 word)
      (20::32 word) (3::32 word) 4
      (NodeBasedEdgeClassification_default (0::16 word))) = 7"
  using NodeBasedEdgeWithOSM_ctor_fields
    [of "4294967295::32 word" "5::64 word" 7 "10::32 word" "20::32 word" "3::32 word" 4
        "NodeBasedEdgeClassification_default (0::16 word)"]
  by simp

subsection \<open>What the comparator reads\<close>

text \<open>
  C10. The comparator reads only source, target, weight and the \<open>forward\<close> and \<open>backward\<close>
  bits: when \<open>a\<close> agrees with \<open>a'\<close> and \<open>b\<close> with \<open>b'\<close> on these five fields, \<open>a < b\<close> and
  \<open>a' < b'\<close> have the same value, whatever the durations, geometry references, annotation
  references and remaining classification fields are. Consequently two records that agree
  on the five fields are unordered in both directions.
\<close>

theorem NodeBasedEdge_less_depends_only_on_key:
  fixes a a' b b' :: "('n::ord, 'w::ord, 'd, 'g, 'rc) NodeBasedEdge"
  shows
    "(source a = source a' \<and> target a = target a' \<and> weight a = weight a' \<and>
      forward (flags a) = forward (flags a') \<and> backward (flags a) = backward (flags a') \<and>
      source b = source b' \<and> target b = target b' \<and> weight b = weight b' \<and>
      forward (flags b) = forward (flags b') \<and> backward (flags b) = backward (flags b')
        \<longrightarrow> NodeBasedEdge_less a b = NodeBasedEdge_less a' b')
     \<and>
     (source a = source b \<and> target a = target b \<and> weight a = weight b \<and>
      forward (flags a) = forward (flags b) \<and> backward (flags a) = backward (flags b)
        \<longrightarrow> \<not> NodeBasedEdge_less a b \<and> \<not> NodeBasedEdge_less b a)"
  by (auto simp: NodeBasedEdge_less_def)

theorem NodeBasedEdge_less_depends_only_on_key_witness:
  "NodeBasedEdge_less
     (NodeBasedEdge_ctor (1::32 word) 2 (10::32 word) (7::32 word) (0::32 word) 0
        (NodeBasedEdgeClassification_ctor True True False False False True False (0::16 word)))
     (NodeBasedEdge_ctor 1 2 10 7 0 0
        (NodeBasedEdgeClassification_ctor True False False False False True False 0))
   = NodeBasedEdge_less
     (NodeBasedEdge_ctor (1::32 word) 2 (10::32 word) (99::32 word) (5::32 word) 6
        (NodeBasedEdgeClassification_ctor True True True True True False True (12::16 word)))
     (NodeBasedEdge_ctor 1 2 10 3 8 9
        (NodeBasedEdgeClassification_ctor True False False True False False False 1))
   \<and> \<not> NodeBasedEdge_less
     (NodeBasedEdge_ctor (1::32 word) 2 (10::32 word) (7::32 word) (0::32 word) 0
        (NodeBasedEdgeClassification_ctor True True False False False True False (0::16 word)))
     (NodeBasedEdge_ctor (1::32 word) 2 (10::32 word) (99::32 word) (5::32 word) 6
        (NodeBasedEdgeClassification_ctor True True True True True False True (12::16 word)))"
  using NodeBasedEdge_less_depends_only_on_key
    [of "NodeBasedEdge_ctor (1::32 word) 2 (10::32 word) (7::32 word) (0::32 word) 0
           (NodeBasedEdgeClassification_ctor True True False False False True False (0::16 word))"
        "NodeBasedEdge_ctor (1::32 word) 2 (10::32 word) (99::32 word) (5::32 word) 6
           (NodeBasedEdgeClassification_ctor True True True True True False True (12::16 word))"
        "NodeBasedEdge_ctor 1 2 10 7 0 0
           (NodeBasedEdgeClassification_ctor True False False False False True False 0)"
        "NodeBasedEdge_ctor 1 2 10 3 8 9
           (NodeBasedEdgeClassification_ctor True False False True False False False 1)",
     THEN conjunct1]
    NodeBasedEdge_less_depends_only_on_key
    [of "NodeBasedEdge_ctor (1::32 word) 2 (10::32 word) (7::32 word) (0::32 word) 0
           (NodeBasedEdgeClassification_ctor True True False False False True False (0::16 word))"
        _
        "NodeBasedEdge_ctor (1::32 word) 2 (10::32 word) (99::32 word) (5::32 word) 6
           (NodeBasedEdgeClassification_ctor True True True True True False True (12::16 word))"
        _,
     THEN conjunct2]
  by (simp add: NodeBasedEdge_ctor_def NodeBasedEdgeClassification_ctor_def)

subsection \<open>Order properties of the comparator\<close>

lemma NodeBasedEdge_less_key:
  fixes a b :: "('n::linorder, 'w::linorder, 'd, 'g, 'rc) NodeBasedEdge"
  shows "NodeBasedEdge_less a b \<longleftrightarrow> NodeBasedEdge_key a < NodeBasedEdge_key b"
  by (auto simp: NodeBasedEdge_less_def NodeBasedEdge_key_def)

lemma NodeBasedEdge_tied_key:
  "NodeBasedEdge_tied a b \<longleftrightarrow> NodeBasedEdge_key a = NodeBasedEdge_key b"
  by (auto simp: NodeBasedEdge_tied_def NodeBasedEdge_key_def)

lemma NodeBasedEdge_sorted_key:
  fixes es :: "('n::linorder, 'w::linorder, 'd, 'g, 'rc) NodeBasedEdge list"
  shows "NodeBasedEdge_sorted es \<longleftrightarrow> sorted (map NodeBasedEdge_key es)"
  by (simp add: NodeBasedEdge_sorted_def sorted_map NodeBasedEdge_less_key not_less)

lemma sorted_same_mset_eq:
  fixes ks ls :: "'k::linorder list"
  assumes "mset ks = mset ls" and "sorted ks" and "sorted ls"
  shows "ks = ls"
proof -
  have "sort ks = ks" using assms(2) by (rule sort_key_id_if_sorted [where f = "\<lambda>x. x", simplified])
  moreover have "sort ks = ls" using assms(1,3) by (intro properties_for_sort) simp_all
  ultimately show ?thesis by simp
qed

lemma NodeBasedEdge_sorted_unique_up_to_ties:
  fixes es fs :: "('n::linorder, 'w::linorder, 'd, 'g, 'rc) NodeBasedEdge list"
  assumes "mset es = mset fs" and "NodeBasedEdge_sorted es" and "NodeBasedEdge_sorted fs"
  shows "list_all2 NodeBasedEdge_tied es fs"
proof -
  have "mset (map NodeBasedEdge_key es) = mset (map NodeBasedEdge_key fs)"
    using assms(1) by simp
  then have "map NodeBasedEdge_key es = map NodeBasedEdge_key fs"
    using assms(2,3) by (intro sorted_same_mset_eq) (simp_all add: NodeBasedEdge_sorted_key)
  then have "list_all2 (=) (map NodeBasedEdge_key es) (map NodeBasedEdge_key fs)"
    by (simp add: list.rel_eq)
  moreover have "NodeBasedEdge_tied = (\<lambda>x y :: ('n, 'w, 'd, 'g, 'rc) NodeBasedEdge.
      NodeBasedEdge_key x = NodeBasedEdge_key y)"
    by (intro ext) (rule NodeBasedEdge_tied_key)
  ultimately show ?thesis
    by (simp add: list_all2_map1 list_all2_map2)
qed

text \<open>
  C5 as stated: the comparator is a strict total order, and sorting the same multiset of
  edge records twice gives the same output order. It fails: the forward-only and the
  backward-only record below, with the same source, target and weight, are different
  records, neither is less than the other, and both orders of the pair are sorted
  arrangements of the same multiset.
\<close>

theorem NodeBasedEdge_less_total_counterexample:
  "NodeBasedEdge_ctor (1::32 word) 2 (10::32 word) (7::32 word) (0::32 word) 0
     (NodeBasedEdgeClassification_ctor True False False False False True False (0::16 word))
   \<noteq> NodeBasedEdge_ctor 1 2 10 7 0 0
     (NodeBasedEdgeClassification_ctor False True False False False True False 0)
   \<and> \<not> NodeBasedEdge_less
     (NodeBasedEdge_ctor (1::32 word) 2 (10::32 word) (7::32 word) (0::32 word) 0
        (NodeBasedEdgeClassification_ctor True False False False False True False (0::16 word)))
     (NodeBasedEdge_ctor 1 2 10 7 0 0
        (NodeBasedEdgeClassification_ctor False True False False False True False 0))
   \<and> \<not> NodeBasedEdge_less
     (NodeBasedEdge_ctor (1::32 word) 2 (10::32 word) (7::32 word) (0::32 word) 0
        (NodeBasedEdgeClassification_ctor False True False False False True False (0::16 word)))
     (NodeBasedEdge_ctor 1 2 10 7 0 0
        (NodeBasedEdgeClassification_ctor True False False False False True False 0))
   \<and> NodeBasedEdge_sorted
     [NodeBasedEdge_ctor (1::32 word) 2 (10::32 word) (7::32 word) (0::32 word) 0
        (NodeBasedEdgeClassification_ctor True False False False False True False (0::16 word)),
      NodeBasedEdge_ctor 1 2 10 7 0 0
        (NodeBasedEdgeClassification_ctor False True False False False True False 0)]
   \<and> NodeBasedEdge_sorted
     [NodeBasedEdge_ctor (1::32 word) 2 (10::32 word) (7::32 word) (0::32 word) 0
        (NodeBasedEdgeClassification_ctor False True False False False True False (0::16 word)),
      NodeBasedEdge_ctor 1 2 10 7 0 0
        (NodeBasedEdgeClassification_ctor True False False False False True False 0)]
   \<and> mset
     [NodeBasedEdge_ctor (1::32 word) 2 (10::32 word) (7::32 word) (0::32 word) 0
        (NodeBasedEdgeClassification_ctor True False False False False True False (0::16 word)),
      NodeBasedEdge_ctor 1 2 10 7 0 0
        (NodeBasedEdgeClassification_ctor False True False False False True False 0)]
     = mset
     [NodeBasedEdge_ctor (1::32 word) 2 (10::32 word) (7::32 word) (0::32 word) 0
        (NodeBasedEdgeClassification_ctor False True False False False True False (0::16 word)),
      NodeBasedEdge_ctor 1 2 10 7 0 0
        (NodeBasedEdgeClassification_ctor True False False False False True False 0)]"
  by (simp add: NodeBasedEdge_sorted_def NodeBasedEdge_less_def NodeBasedEdge_ctor_def
      NodeBasedEdgeClassification_ctor_def add_mset_commute)

text \<open>
  C5 as amended: the comparator is a strict weak order whose ties are the records with equal
  source, target and weight and the same directionality status (both directions set, or
  not). It is irreflexive, asymmetric and transitive; two records are unordered in both
  directions exactly when they are tied; for every pair of records that is not tied exactly
  one of \<open>a < b\<close> and \<open>b < a\<close> holds; so two sorted arrangements of the same multiset of edge
  records have the same length and agree position by position up to tied records.
\<close>

theorem NodeBasedEdge_less_strict_weak_order:
  fixes a b c :: "('n::linorder, 'w::linorder, 'd, 'g, 'rc) NodeBasedEdge"
    and es fs :: "('n, 'w, 'd, 'g, 'rc) NodeBasedEdge list"
  shows
    "\<not> NodeBasedEdge_less a a
     \<and> (NodeBasedEdge_less a b \<longrightarrow> \<not> NodeBasedEdge_less b a)
     \<and> (NodeBasedEdge_less a b \<and> NodeBasedEdge_less b c \<longrightarrow> NodeBasedEdge_less a c)
     \<and> (NodeBasedEdge_tied a b \<longleftrightarrow> \<not> NodeBasedEdge_less a b \<and> \<not> NodeBasedEdge_less b a)
     \<and> (\<not> NodeBasedEdge_tied a b \<longrightarrow> NodeBasedEdge_less a b \<noteq> NodeBasedEdge_less b a)
     \<and> (mset es = mset fs \<and> NodeBasedEdge_sorted es \<and> NodeBasedEdge_sorted fs
          \<longrightarrow> list_all2 NodeBasedEdge_tied es fs)"
proof -
  have irrefl: "\<not> NodeBasedEdge_less a a"
    by (simp add: NodeBasedEdge_less_key)
  have asym: "NodeBasedEdge_less a b \<longrightarrow> \<not> NodeBasedEdge_less b a"
    unfolding NodeBasedEdge_less_key by (blast dest: less_asym)
  have trans: "NodeBasedEdge_less a b \<and> NodeBasedEdge_less b c \<longrightarrow> NodeBasedEdge_less a c"
    unfolding NodeBasedEdge_less_key by (blast intro: less_trans)
  have tied: "NodeBasedEdge_tied a b \<longleftrightarrow> \<not> NodeBasedEdge_less a b \<and> \<not> NodeBasedEdge_less b a"
    unfolding NodeBasedEdge_less_key NodeBasedEdge_tied_key by (simp add: not_less order_eq_iff)
  have one: "\<not> NodeBasedEdge_tied a b \<longrightarrow> NodeBasedEdge_less a b \<noteq> NodeBasedEdge_less b a"
    unfolding NodeBasedEdge_less_key NodeBasedEdge_tied_key
    using less_asym [of "NodeBasedEdge_key a" "NodeBasedEdge_key b"]
      linorder_neqE [of "NodeBasedEdge_key a" "NodeBasedEdge_key b"]
    by blast
  have lists: "mset es = mset fs \<and> NodeBasedEdge_sorted es \<and> NodeBasedEdge_sorted fs
      \<longrightarrow> list_all2 NodeBasedEdge_tied es fs"
    by (blast intro: NodeBasedEdge_sorted_unique_up_to_ties)
  from irrefl asym trans tied one lists show ?thesis by blast
qed

theorem NodeBasedEdge_less_strict_weak_order_witness:
  "NodeBasedEdge_less
     (NodeBasedEdge_ctor (1::32 word) 2 (10::32 word) (7::32 word) (0::32 word) 0
        (NodeBasedEdgeClassification_ctor True True False False False True False (0::16 word)))
     (NodeBasedEdge_ctor (1::32 word) 2 (10::32 word) (7::32 word) (0::32 word) 0
        (NodeBasedEdgeClassification_ctor True False False False False True False (0::16 word)))
   \<noteq> NodeBasedEdge_less
     (NodeBasedEdge_ctor (1::32 word) 2 (10::32 word) (7::32 word) (0::32 word) 0
        (NodeBasedEdgeClassification_ctor True False False False False True False (0::16 word)))
     (NodeBasedEdge_ctor (1::32 word) 2 (10::32 word) (7::32 word) (0::32 word) 0
        (NodeBasedEdgeClassification_ctor True True False False False True False (0::16 word)))
   \<and> list_all2 NodeBasedEdge_tied
     [NodeBasedEdge_ctor (1::32 word) 2 (10::32 word) (7::32 word) (0::32 word) 0
        (NodeBasedEdgeClassification_ctor True True False False False True False (0::16 word)),
      NodeBasedEdge_ctor (1::32 word) 2 (10::32 word) (7::32 word) (0::32 word) 0
        (NodeBasedEdgeClassification_ctor True False False False False True False (0::16 word)),
      NodeBasedEdge_ctor (1::32 word) 2 (10::32 word) (7::32 word) (0::32 word) 0
        (NodeBasedEdgeClassification_ctor False True False False False True False (0::16 word))]
     [NodeBasedEdge_ctor (1::32 word) 2 (10::32 word) (7::32 word) (0::32 word) 0
        (NodeBasedEdgeClassification_ctor True True False False False True False (0::16 word)),
      NodeBasedEdge_ctor (1::32 word) 2 (10::32 word) (7::32 word) (0::32 word) 0
        (NodeBasedEdgeClassification_ctor False True False False False True False (0::16 word)),
      NodeBasedEdge_ctor (1::32 word) 2 (10::32 word) (7::32 word) (0::32 word) 0
        (NodeBasedEdgeClassification_ctor True False False False False True False (0::16 word))]"
proof -
  let ?p = "NodeBasedEdge_ctor (1::32 word) 2 (10::32 word) (7::32 word) (0::32 word) 0
        (NodeBasedEdgeClassification_ctor True True False False False True False (0::16 word))"
  let ?q1 = "NodeBasedEdge_ctor (1::32 word) 2 (10::32 word) (7::32 word) (0::32 word) 0
        (NodeBasedEdgeClassification_ctor True False False False False True False (0::16 word))"
  let ?q2 = "NodeBasedEdge_ctor (1::32 word) 2 (10::32 word) (7::32 word) (0::32 word) 0
        (NodeBasedEdgeClassification_ctor False True False False False True False (0::16 word))"
  have untied: "\<not> NodeBasedEdge_tied ?p ?q1"
    by (simp add: NodeBasedEdge_tied_def NodeBasedEdge_ctor_def NodeBasedEdgeClassification_ctor_def)
  have same: "mset [?p, ?q1, ?q2] = mset [?p, ?q2, ?q1]"
    by (simp add: add_mset_commute)
  have sorted1: "NodeBasedEdge_sorted [?p, ?q1, ?q2]"
    by (simp add: NodeBasedEdge_sorted_def NodeBasedEdge_less_def NodeBasedEdge_ctor_def
        NodeBasedEdgeClassification_ctor_def)
  have sorted2: "NodeBasedEdge_sorted [?p, ?q2, ?q1]"
    by (simp add: NodeBasedEdge_sorted_def NodeBasedEdge_less_def NodeBasedEdge_ctor_def
        NodeBasedEdgeClassification_ctor_def)
  from NodeBasedEdge_less_strict_weak_order
         [of ?p ?q1 ?p "[?p, ?q1, ?q2]" "[?p, ?q2, ?q1]"] untied same sorted1 sorted2
  show ?thesis by blast
qed

end
